theory Spec2Isabelle
  imports Main "HOL-Library.Sublist"
begin

section \<open>Meeting modal: \<open>src/components/MeetingModal.tsx\<close>\<close>

text \<open>
  JavaScript's \<open>String.prototype.split\<close> with a one-character separator: the
  result always has at least one element, the empty string gives \<open>[""]\<close>, and two
  adjacent separators give an empty segment between them.
\<close>

fun split :: "char \<Rightarrow> string \<Rightarrow> string list" where
  "split sep [] = [[]]"
| "split sep (c # cs) =
     (if c = sep then [] # split sep cs
      else (case split sep cs of
              [] \<Rightarrow> [[c]]
            | seg # segs \<Rightarrow> (c # seg) # segs))"

text \<open>
  \<open>Array.prototype.pop\<close> read for its value only: the last element, or
  \<open>undefined\<close> (here \<open>None\<close>) when the array is empty.
\<close>

definition pop :: "'a list \<Rightarrow> 'a option" where
  "pop xs = (if xs = [] then None else Some (last xs))"

text \<open>
  What \<open>handleStart\<close> does to the outside, in the order it does it. The two
  actions of \<open>useMeetingActions\<close>, the browser's \<open>alert\<close> and the \<open>onClose\<close>
  property are calls; \<open>setMeetingUrl\<close> is the component's own state and is returned
  as the new value of \<open>meetingUrl\<close>.
\<close>

datatype modal_call =
    JoinMeeting string
  | CreateInstantMeeting
  | Alert string
  | OnClose

text \<open>\<open>const meetingId = meetingUrl.split("/").pop()\<close>\<close>

definition meetingId :: "string \<Rightarrow> string option" where
  "meetingId meetingUrl = pop (split CHR ''/'' meetingUrl)"

text \<open>
  A JavaScript string is truthy when it is defined and not empty; that is the test
  \<open>if (meetingId)\<close>.
\<close>

fun truthy_string :: "string option \<Rightarrow> bool" where
  "truthy_string None = False"
| "truthy_string (Some s) = (s \<noteq> [])"

text \<open>
  \<open>handleStart\<close>, from the property \<open>isJoinMeeting\<close> and the state
  \<open>meetingUrl\<close>: the new \<open>meetingUrl\<close> and the calls made.
\<close>

definition handleStart :: "bool \<Rightarrow> string \<Rightarrow> string \<times> modal_call list" where
  "handleStart isJoinMeeting meetingUrl =
     (let calls =
        (if isJoinMeeting then
           (case meetingId meetingUrl of
              Some mid \<Rightarrow>
                if truthy_string (Some mid) then [JoinMeeting mid]
                else [Alert ''Please enter a valid meeting URL.'']
            | None \<Rightarrow> [Alert ''Please enter a valid meeting URL.''])
         else [CreateInstantMeeting])
      in ('''', calls @ [OnClose]))"

text \<open>The calls that navigate or reach an external service.\<close>

fun is_action :: "modal_call \<Rightarrow> bool" where
  "is_action (JoinMeeting _) = True"
| "is_action CreateInstantMeeting = True"
| "is_action _ = False"

section \<open>Access gate: \<open>src/middleware.ts\<close>\<close>

text \<open>
  What the identity provider's check of a request's session credential gives: a valid
  session with its user id; no session (no credential, or one that is malformed or
  expired); and the two states in which the provider has not settled the session from
  this request, the interstitial (as for a first visit under development keys) and the
  unknown state.
\<close>

datatype request_state = SignedIn string | SignedOut | Interstitial | Unknown

text \<open>A request as the gate sees it: the path and the state of its session.\<close>

record request =
  path :: string
  requestState :: request_state

text \<open>
  Route patterns are compared without regard to the case of letters; the paths and
  patterns here are ASCII.
\<close>

definition lower_case :: "char \<Rightarrow> char" where
  "lower_case c =
     (case map_of (zip ''ABCDEFGHIJKLMNOPQRSTUVWXYZ'' ''abcdefghijklmnopqrstuvwxyz'') c of
        None \<Rightarrow> c
      | Some l \<Rightarrow> l)"

text \<open>
  A route pattern of the route lists, as the provider's matcher compiles it: anchored
  at both ends, letter case ignored, one trailing delimiter (\<open>/\<close>, \<open>#\<close> or \<open>?\<close>)
  allowed. A pattern that ends in the wildcard group \<open>(.*)\<close> therefore matches
  every path that starts with the text before the group; any other pattern of this
  repository is a literal path and matches that path, with or without one trailing
  delimiter. (A path holds no line break, which the wildcard would not cross.)
\<close>

definition route_matches :: "string \<Rightarrow> string \<Rightarrow> bool" where
  "route_matches pattern p =
     (let q = map lower_case p; pat = map lower_case pattern
      in if suffix ''(.*)'' pattern
         then prefix (take (length pat - 4) pat) q
         else q = pat \<or> q = pat @ ''/'' \<or> q = pat @ ''#'' \<or> q = pat @ ''?'')"

definition matches_any :: "string list \<Rightarrow> string \<Rightarrow> bool" where
  "matches_any patterns p = list_ex (\<lambda>pattern. route_matches pattern p) patterns"

text \<open>The options object that \<open>middleware.ts\<close> passes to \<open>authMiddleware\<close>.\<close>

record auth_options =
  publicRoutes :: "string list"
  ignoredRoutes :: "string list"

text \<open>
  What the gate can do with a request. It lets it through with no authentication
  information at all (an ignored route), or with the session's user id or the
  signed-out state. Or it answers the request itself: with the sign-in challenge (the
  redirect to sign-in, which for a request that the library takes for an API call is
  its unauthorised response instead; the two are not told apart here), with the
  interstitial page, or with the bare unauthorised response of the unknown state.
\<close>

datatype gate_response =
    NextIgnored
  | Next "string option"
  | SignInChallenge
  | InterstitialPage
  | Unauthorized

text \<open>
  Modelled from the spec: \<open>authMiddleware\<close>, the identity provider's library
  function that \<open>middleware.ts\<close> calls, is not among the repository's sources.
  Section 4.1 of the spec gives its contract, and the comments of \<open>middleware.ts\<close>
  on the two options say the same: an ignored path bypasses the check entirely
  (``can always be accessed, and have no authentication information''), a path marked
  public is allowed (``can be accessed while signed out''), a request for any other
  path without a verified session is short-circuited with the redirect or challenge,
  and any other request proceeds unchanged. The list of public routes is the allow
  list: the setup notes configure no sign-in route that would add to it. The
  library's two unsettled session states, which the spec does not name, are answered
  by the gate itself on every path that is not ignored, before public routes are
  looked at.
\<close>

definition authMiddleware :: "auth_options \<Rightarrow> request \<Rightarrow> gate_response" where
  "authMiddleware opts req =
     (if matches_any (ignoredRoutes opts) (path req) then NextIgnored
      else (case requestState req of
              Unknown \<Rightarrow> Unauthorized
            | Interstitial \<Rightarrow> InterstitialPage
            | SignedOut \<Rightarrow>
                if matches_any (publicRoutes opts) (path req) then Next None
                else SignInChallenge
            | SignedIn u \<Rightarrow> Next (Some u)))"

text \<open>The default export of \<open>middleware.ts\<close>.\<close>

definition middleware :: "request \<Rightarrow> gate_response" where
  "middleware =
     authMiddleware \<lparr>publicRoutes = [''/''],
                     ignoredRoutes = [''/api/webhook'', ''/api/convex'']\<rparr>"

text \<open>
  The pattern set of the repository's route notes
  (\<open>createRouteMatcher(["/dashboard(.*)", "/schedule(.*)", "/meeting(.*)",
  "/recordings(.*)"])\<close>): the four path prefixes that the application's pages live
  under.
\<close>

definition isProtectedRoute :: "string \<Rightarrow> bool" where
  "isProtectedRoute p =
     matches_any [''/dashboard(.*)'', ''/schedule(.*)'', ''/meeting(.*)'',
                  ''/recordings(.*)''] p"

text \<open>
  \<open>config.matcher\<close> selects the paths on which the framework runs the middleware.
  The first expression, \<open>/((?!_next|[^?]*\.(?:html?|css|...)).*)\<close>, takes every path
  whose text after the leading slash neither starts with \<open>_next\<close> nor holds, before any
  question mark, a dot followed by one of the listed file extensions (\<open>js\<close> only when
  \<open>on\<close> does not follow it). The second, \<open>/(api|trpc)(.*)\<close>, takes every path
  under \<open>/api\<close> or \<open>/trpc\<close>. Both are matched with the case of letters kept.
\<close>

definition static_extensions :: "string list" where
  "static_extensions =
     [''html'', ''htm'', ''css'', ''jpeg'', ''jpg'', ''webp'', ''png'', ''gif'', ''svg'',
      ''ttf'', ''woff2'', ''woff'', ''ico'', ''csv'', ''docx'', ''doc'', ''xlsx'', ''xls'',
      ''zip'', ''webmanifest'']"

definition extension_here :: "string \<Rightarrow> bool" where
  "extension_here s =
     (list_ex (\<lambda>e. prefix e s) static_extensions
      \<or> (prefix ''js'' s \<and> \<not> prefix ''json'' s))"

fun static_file :: "string \<Rightarrow> bool" where
  "static_file [] = False"
| "static_file (c # cs) =
     ((c = CHR ''.'' \<and> extension_here cs) \<or> (c \<noteq> CHR ''?'' \<and> static_file cs))"

definition source_matcher :: "string \<Rightarrow> bool" where
  "source_matcher p =
     ((case p of
         [] \<Rightarrow> False
       | c # rest \<Rightarrow> c = CHR ''/'' \<and> \<not> prefix ''_next'' rest \<and> \<not> static_file rest)
      \<or> prefix ''/api'' p \<or> prefix ''/trpc'' p)"

text \<open>
  The framework compiles each expression with an optional group in front,
  \<open>/_next/data/<id>\<close> with a non-empty \<open>id\<close> that holds no slash, so that the data
  route of a page is selected when the page is. (It also allows \<open>.json\<close> and one
  delimiter at the end, which the final wildcard of both expressions takes in
  anyway.) \<open>next_data_rest\<close> is what follows that group, when the path starts with it.
\<close>

definition next_data_rest :: "string \<Rightarrow> string option" where
  "next_data_rest p =
     (if prefix ''/_next/data/'' p
         \<and> takeWhile (\<lambda>c. c \<noteq> CHR ''/'') (drop 12 p) \<noteq> []
      then Some (dropWhile (\<lambda>c. c \<noteq> CHR ''/'') (drop 12 p))
      else None)"

definition matcher :: "string \<Rightarrow> bool" where
  "matcher p =
     (source_matcher p
      \<or> (case next_data_rest p of
            None \<Rightarrow> False
          | Some rest \<Rightarrow> source_matcher rest))"

text \<open>\<open>Array.prototype.join\<close> with the separator \<open>/\<close>.\<close>

fun join :: "string list \<Rightarrow> string" where
  "join [] = []"
| "join [s] = s"
| "join (s # t # ss) = s @ CHR ''/'' # join (t # ss)"

text \<open>
  The path that the framework hands to the middleware: a data route
  \<open>/_next/data/<id>/<page>.json\<close> is shown as the route of its page, and \<open>index\<close>
  as the root; every other path is handed over as it is.
\<close>

definition nextUrl_pathname :: "string \<Rightarrow> string" where
  "nextUrl_pathname p =
     (if prefix ''/_next/data/'' p \<and> suffix ''.json'' p then
        (let paths = split CHR ''/'' (take (length p - 17) (drop 12 p))
         in if tl paths \<noteq> [] \<and> hd (tl paths) = ''index'' then ''/''
            else CHR ''/'' # join (tl paths))
      else p)"

text \<open>
  A request on its way to the application: the middleware answers it when the matcher
  selects its path, and is not run at all otherwise.
\<close>

definition handle :: "request \<Rightarrow> gate_response option" where
  "handle req =
     (if matcher (path req)
      then Some (middleware (req\<lparr>path := nextUrl_pathname (path req)\<rparr>))
      else None)"

section \<open>Data queries\<close>

text \<open>
  The value of a \<open>useQuery\<close> subscription: \<open>undefined\<close> while the result has not
  arrived, \<open>null\<close> when the query found no document, the document otherwise.
\<close>

datatype 'a query_result = Undefined | Null | Doc 'a

text \<open>\<open>x || ""\<close> on an optional string.\<close>

fun or_empty :: "string option \<Rightarrow> string" where
  "or_empty None = []"
| "or_empty (Some s) = s"

section \<open>Role resolution: \<open>src/hooks/useUserRole.ts\<close>\<close>

record clerk_user =
  clerk_id :: string

record user_doc =
  role :: string

record role_flags =
  isLoading :: bool
  isInterviewer :: bool
  isCandidate :: bool

text \<open>\<open>userData?.role\<close>\<close>

fun role_of :: "user_doc query_result \<Rightarrow> string option" where
  "role_of (Doc d) = Some (role d)"
| "role_of _ = None"

text \<open>
  The hook reads the signed-in user (\<open>useUser\<close>) and the subscription
  \<open>getUserByClerkId\<close>, given here as the current result for each \<open>clerkId\<close>.
\<close>

definition useUserRole ::
    "clerk_user option \<Rightarrow> (string \<Rightarrow> user_doc query_result) \<Rightarrow> role_flags" where
  "useUserRole user getUserByClerkId =
     (let userData = getUserByClerkId (or_empty (map_option clerk_id user))
      in \<lparr>isLoading = (userData = Undefined),
          isInterviewer = (role_of userData = Some ''interviewer''),
          isCandidate = (role_of userData = Some ''candidate'')\<rparr>)"

text \<open>
  The three answers that a resolution of the role can give, and the flags that stand
  for each of them.
\<close>

datatype role_state = Loading | Interviewer | Candidate

fun flags_of :: "role_state \<Rightarrow> role_flags" where
  "flags_of Loading = \<lparr>isLoading = True, isInterviewer = False, isCandidate = False\<rparr>"
| "flags_of Interviewer = \<lparr>isLoading = False, isInterviewer = True, isCandidate = False\<rparr>"
| "flags_of Candidate = \<lparr>isLoading = False, isInterviewer = False, isCandidate = True\<rparr>"

definition tri_state :: "role_flags \<Rightarrow> bool" where
  "tri_state f = list_ex (\<lambda>r. f = flags_of r) [Loading, Interviewer, Candidate]"

section \<open>Consumers of the role\<close>

datatype view =
    DashboardLink
  | LoaderUI
  | RouterPush string
  | InterviewScheduleUI
  | AccessDenied
  | InterviewHistory

text \<open>\<open>DashboardBtn\<close>: \<open>None\<close> is the component returning \<open>null\<close>.\<close>

definition DashboardBtn :: "role_flags \<Rightarrow> view option" where
  "DashboardBtn f =
     (if isCandidate f \<or> isLoading f then None else Some DashboardLink)"

text \<open>\<open>SchedulePage\<close> and \<open>InterviewHistoryPage\<close> of the route notes.\<close>

definition SchedulePage :: "role_flags \<Rightarrow> view" where
  "SchedulePage f =
     (if isLoading f then LoaderUI
      else if \<not> isInterviewer f then RouterPush ''/''
      else InterviewScheduleUI)"

definition InterviewHistoryPage :: "role_flags \<Rightarrow> view" where
  "InterviewHistoryPage f =
     (if isLoading f then LoaderUI
      else if \<not> isCandidate f then AccessDenied
      else InterviewHistory)"

text \<open>The views that only one of the roles may see.\<close>

fun role_gated :: "view \<Rightarrow> bool" where
  "role_gated DashboardLink = True"
| "role_gated InterviewScheduleUI = True"
| "role_gated InterviewHistory = True"
| "role_gated _ = False"

section \<open>End-call control: \<open>src/components/EndCallButton.tsx\<close>\<close>

text \<open>
  What the component reads of the video client's objects: the call's id and
  \<open>call.state.createdBy\<close>, which may be missing, and the local participant's
  \<open>userId\<close>; of the interview document, its \<open>_id\<close>.
\<close>

record user_response =
  user_id :: string

record call =
  call_id :: string
  createdBy :: "user_response option"

record participant =
  participant_userId :: string

record interview =
  interview_id :: string

text \<open>
  What happens when the handler \<open>endCall\<close> runs, in order. The first three are the
  awaited steps that completed; an awaited step that throws leaves no entry of its
  own, and the \<open>catch\<close> block's two calls follow.
\<close>

datatype end_effect =
    CallEnded
  | InterviewStatusUpdated string string
  | RouterPushed string
  | ToastSuccess string
  | ConsoleError string
  | ToastError string

text \<open>
  The outside of the handler: for each of the calls in the \<open>try\<close> block, whether
  it completes (\<open>None\<close>) or throws (the error). The mutation's outcome may depend
  on its arguments, the router's on the route.
\<close>

record services =
  call_endCall :: "string option"
  updateInterviewStatus :: "string \<Rightarrow> string \<Rightarrow> string option"
  router_push :: "string \<Rightarrow> string option"

definition on_error :: "string \<Rightarrow> end_effect list" where
  "on_error e = [ConsoleError e, ToastError ''Failed to end the meeting. Please try again.'']"

definition endCall :: "services \<Rightarrow> interview \<Rightarrow> end_effect list" where
  "endCall sv iv =
     (case call_endCall sv of
        Some e \<Rightarrow> on_error e
      | None \<Rightarrow>
          CallEnded #
          (case updateInterviewStatus sv (interview_id iv) ''completed'' of
             Some e \<Rightarrow> on_error e
           | None \<Rightarrow>
               InterviewStatusUpdated (interview_id iv) ''completed'' #
               (case router_push sv ''/'' of
                  Some e \<Rightarrow> on_error e
                | None \<Rightarrow>
                    [RouterPushed ''/'', ToastSuccess ''Meeting ended for everyone.''])))"

text \<open>
  The rendered control: \<open>None\<close> is \<open>null\<close>, otherwise the button ``End Meeting''
  whose click runs \<open>endCall\<close> on the interview found. The subscription
  \<open>getInterviewByStreamCallId\<close> is given as its current result for each
  \<open>streamCallId\<close>; the component asks it for \<open>call?.id || ""\<close>. The owner test is
  JavaScript's \<open>===\<close> on the two optional ids.
\<close>

datatype end_call_view = EndMeetingButton interview

definition EndCallButton ::
    "call option \<Rightarrow> participant option \<Rightarrow> (string \<Rightarrow> interview query_result)
       \<Rightarrow> end_call_view option" where
  "EndCallButton call localParticipant getInterviewByStreamCallId =
     (let interview = getInterviewByStreamCallId (or_empty (map_option call_id call))
      in case call of
           None \<Rightarrow> None
         | Some c \<Rightarrow>
             (case interview of
                Doc iv \<Rightarrow>
                  (let isMeetingOwner =
                     (map_option participant_userId localParticipant
                        = map_option user_id (createdBy c))
                   in if \<not> isMeetingOwner then None else Some (EndMeetingButton iv))
              | _ \<Rightarrow> None))"

text \<open>
  The state that the handler's effects act on: whether the call has been ended for
  everyone, the status of each interview document, the current route, and what was
  logged and notified.
\<close>

record world =
  call_ended :: bool
  interview_status :: "string \<Rightarrow> string option"
  route :: string
  console :: "string list"
  toasts :: "string list"

fun apply_effect :: "world \<Rightarrow> end_effect \<Rightarrow> world" where
  "apply_effect w CallEnded = w\<lparr>call_ended := True\<rparr>"
| "apply_effect w (InterviewStatusUpdated i s) =
     w\<lparr>interview_status := (interview_status w)(i \<mapsto> s)\<rparr>"
| "apply_effect w (RouterPushed r) = w\<lparr>route := r\<rparr>"
| "apply_effect w (ToastSuccess m) = w\<lparr>toasts := toasts w @ [m]\<rparr>"
| "apply_effect w (ConsoleError e) = w\<lparr>console := console w @ [e]\<rparr>"
| "apply_effect w (ToastError m) = w\<lparr>toasts := toasts w @ [m]\<rparr>"

definition run_endCall :: "services \<Rightarrow> interview \<Rightarrow> world \<Rightarrow> world" where
  "run_endCall sv iv w = foldl apply_effect w (endCall sv iv)"

text \<open>The three steps of the action, as against the logging and the notifications.\<close>

fun is_step :: "end_effect \<Rightarrow> bool" where
  "is_step CallEnded = True"
| "is_step (InterviewStatusUpdated _ _) = True"
| "is_step (RouterPushed _) = True"
| "is_step _ = False"

section \<open>Hydration-safe rendering: \<open>src/components/VideoPlayer.tsx\<close>, \<open>src/hooks/useIsClient.ts\<close>\<close>

datatype environment = Server | Browser

text \<open>
  The values that a state made by \<open>useState(init)\<close> takes at the successive renders
  of a component whose only effect is \<open>useEffect(() => set(final), [])\<close>: the first
  render sees \<open>init\<close> everywhere; effects run after the first render in the browser
  and never on the server, and the state they set gives the second render.
\<close>

definition state_history :: "environment \<Rightarrow> 'a \<Rightarrow> 'a \<Rightarrow> 'a list" where
  "state_history env init final =
     init # (case env of Server \<Rightarrow> [] | Browser \<Rightarrow> [final])"

text \<open>\<open>useIsClient\<close>: what the hook returns at each render.\<close>

definition useIsClient :: "environment \<Rightarrow> bool list" where
  "useIsClient env = state_history env False True"

record video_props =
  src :: string
  className :: "string option"
  ariaLabel :: "string option"

text \<open>
  The two elements of \<open>VideoPlayer\<close>: the placeholder \<open>div\<close> with its class,
  its \<open>aria-label\<close> and its text, and the \<open>video\<close> with \<open>src\<close>, class and
  \<open>aria-label\<close>.
\<close>

datatype element =
    PlaceholderDiv string string string
  | VideoElement string "string option" "string option"

text \<open>A template literal prints a missing value as \<open>undefined\<close>.\<close>

fun template :: "string option \<Rightarrow> string" where
  "template None = ''undefined''"
| "template (Some s) = s"

definition VideoPlayer :: "video_props \<Rightarrow> bool \<Rightarrow> element" where
  "VideoPlayer props mounted =
     (if \<not> mounted then
        PlaceholderDiv
          (template (className props)
             @ '' bg-gray-200 dark:bg-gray-800 animate-pulse flex items-center justify-center'')
          ''Loading video...''
          ''Loading...''
      else VideoElement (src props) (className props) (ariaLabel props))"

definition VideoPlayer_renders :: "environment \<Rightarrow> video_props \<Rightarrow> element list" where
  "VideoPlayer_renders env props = map (VideoPlayer props) (state_history env False True)"

fun is_video :: "element \<Rightarrow> bool" where
  "is_video (VideoElement _ _ _) = True"
| "is_video _ = False"

fun is_placeholder :: "element \<Rightarrow> bool" where
  "is_placeholder (PlaceholderDiv _ _ _) = True"
| "is_placeholder _ = False"

section \<open>Derived notions and sample data\<close>

text \<open>
  A path is protected when the gate answers a signed-out request for it with the
  sign-in challenge instead of letting it through.
\<close>

definition path_protected :: "string \<Rightarrow> bool" where
  "path_protected p =
     (middleware \<lparr>path = p, requestState = SignedOut\<rparr> = SignInChallenge)"

text \<open>
  A path names a route when it is the route's text up to the case of letters, with at
  most one trailing delimiter.
\<close>

definition names_route :: "string \<Rightarrow> string \<Rightarrow> bool" where
  "names_route r p =
     (let q = map lower_case p
      in q = r \<or> q = r @ ''/'' \<or> q = r @ ''#'' \<or> q = r @ ''?'')"

text \<open>
  Sample data for the examples below: a user collection with no documents, and one
  with an interviewer, a candidate and a lookup that has not arrived.
\<close>

definition no_user_docs :: "string \<Rightarrow> user_doc query_result" where
  "no_user_docs clerkId = Null"

definition sample_user_docs :: "string \<Rightarrow> user_doc query_result" where
  "sample_user_docs clerkId =
     (if clerkId = ''user_1'' then Doc \<lparr>role = ''interviewer''\<rparr>
      else if clerkId = ''user_2'' then Doc \<lparr>role = ''candidate''\<rparr>
      else if clerkId = ''user_3'' then Undefined
      else Null)"

text \<open>
  A user collection whose only document is kept under the empty id.
\<close>

definition blank_id_docs :: "string \<Rightarrow> user_doc query_result" where
  "blank_id_docs clerkId =
     (if clerkId = [] then Doc \<lparr>role = ''interviewer''\<rparr> else Undefined)"

text \<open>
  An interview collection and a call created by \<open>user_1\<close>.
\<close>

definition sample_interviews :: "string \<Rightarrow> interview query_result" where
  "sample_interviews streamCallId =
     (if streamCallId = ''call_1'' then Doc \<lparr>interview_id = ''interview_1''\<rparr>
      else if streamCallId = ''call_2'' then Undefined
      else Null)"

definition sample_call :: call where
  "sample_call = \<lparr>call_id = ''call_1'', createdBy = Some \<lparr>user_id = ''user_1''\<rparr>\<rparr>"

text \<open>The same call with no creator recorded in its state.\<close>

definition creatorless_call :: call where
  "creatorless_call = \<lparr>call_id = ''call_1'', createdBy = None\<rparr>"

text \<open>
  Services on which every call completes, on which the mutation throws, and on which
  ending the call throws; and a state with one scheduled interview.
\<close>

definition all_fine :: services where
  "all_fine = \<lparr>call_endCall = None,
               updateInterviewStatus = (\<lambda>i s. None),
               router_push = (\<lambda>r. None)\<rparr>"

definition sample_world :: world where
  "sample_world = \<lparr>call_ended = False,
                   interview_status = [''interview_1'' \<mapsto> ''scheduled''],
                   route = ''/meeting/call_1'',
                   console = [],
                   toasts = []\<rparr>"

definition mutation_fails :: services where
  "mutation_fails = all_fine\<lparr>updateInterviewStatus := (\<lambda>i s. Some ''ConvexError'')\<rparr>"

definition end_fails :: services where
  "end_fails = all_fine\<lparr>call_endCall := Some ''StreamError''\<rparr>"

section \<open>Properties of the meeting modal\<close>

lemma split_not_Nil: "split sep s \<noteq> []"
  by (induction s) (auto split: list.splits)

lemma split_snoc:
  "split sep (s @ [c]) =
     (if c = sep then split sep s @ [[]]
      else butlast (split sep s) @ [last (split sep s) @ [c]])"
proof (induction s)
  case Nil
  show ?case by simp
next
  case (Cons x xs)
  obtain seg segs where sp: "split sep xs = seg # segs"
    using split_not_Nil [of sep xs] by (cases "split sep xs") auto
  show ?case
    using Cons sp by (cases segs) (auto split: list.splits)
qed

lemma last_split_snoc:
  "last (split sep (s @ [c])) = (if c = sep then [] else last (split sep s) @ [c])"
  by (simp add: split_snoc)

lemma last_split_Nil_iff:
  "last (split sep s) = [] \<longleftrightarrow> s = [] \<or> last s = sep"
proof (cases s rule: rev_cases)
  case Nil
  then show ?thesis by simp
next
  case (snoc ys y)
  then show ?thesis by (simp add: last_split_snoc)
qed

text \<open>
  \<open>split\<close> is the splitting of JavaScript: no segment holds the separator, and
  putting the separator in front of every segment gives the separator and the input.
\<close>

lemma split_separates: "seg \<in> set (split sep s) \<Longrightarrow> sep \<notin> set seg"
  by (induction s arbitrary: seg) (auto split: list.splits if_splits)

lemma split_joins: "concat (map (\<lambda>seg. sep # seg) (split sep s)) = sep # s"
  by (induction s) (auto split: list.splits)

lemma meetingId_last: "meetingId url = Some (last (split CHR ''/'' url))"
  by (simp add: meetingId_def pop_def split_not_Nil)

lemma handleStart_join:
  "handleStart True url =
     ([], (if last (split CHR ''/'' url) = []
           then [Alert ''Please enter a valid meeting URL.'']
           else [JoinMeeting (last (split CHR ''/'' url))]) @ [OnClose])"
  by (simp add: handleStart_def meetingId_last)

lemma handleStart_instant: "handleStart False url = ([], [CreateInstantMeeting, OnClose])"
  by (simp add: handleStart_def)

text \<open>
  Claim C2. For every input of the join action, the derived call id is the last
  segment of the input split on \<open>/\<close>; for \<open>https://x/y/abc123\<close> it is \<open>abc123\<close>.
  When that segment is not empty the action joins the meeting of that id. When it is
  empty, which is exactly when the input is empty or ends in a slash, the action
  shows the validation message and makes neither the call that navigates nor any
  other call to a service; the message is shown in that case only.
\<close>

theorem C2_join_meeting_id:
  "meetingId url = Some (last (split CHR ''/'' url))
   \<and> meetingId ''https://x/y/abc123'' = Some ''abc123''
   \<and> (last (split CHR ''/'' url) \<noteq> [] \<longrightarrow>
        snd (handleStart True url) = [JoinMeeting (last (split CHR ''/'' url)), OnClose])
   \<and> (last (split CHR ''/'' url) = [] \<longrightarrow>
        snd (handleStart True url) = [Alert ''Please enter a valid meeting URL.'', OnClose]
        \<and> \<not> list_ex is_action (snd (handleStart True url)))
   \<and> (Alert ''Please enter a valid meeting URL.'' \<in> set (snd (handleStart True url))
        \<longleftrightarrow> last (split CHR ''/'' url) = [])
   \<and> (last (split CHR ''/'' url) = [] \<longleftrightarrow> url = [] \<or> last url = CHR ''/'')"
proof -
  have ex: "meetingId ''https://x/y/abc123'' = Some ''abc123''"
    by (simp add: meetingId_def pop_def)
  show ?thesis
    using ex by (simp add: meetingId_last handleStart_join last_split_Nil_iff)
qed

theorem C2_join_meeting_id_witness:
  "snd (handleStart True ''https://x/y/abc123'') = [JoinMeeting ''abc123'', OnClose]
   \<and> snd (handleStart True ''https://x/y/'')
       = [Alert ''Please enter a valid meeting URL.'', OnClose]
   \<and> snd (handleStart True []) = [Alert ''Please enter a valid meeting URL.'', OnClose]"
proof -
  have a: "last (split CHR ''/'' ''https://x/y/abc123'') = ''abc123''" by simp
  have b: "last (split CHR ''/'' ''https://x/y/'') = []" by simp
  have c: "last (split CHR ''/'' []) = []" by simp
  show ?thesis
    using C2_join_meeting_id [of "''https://x/y/abc123''"]
      C2_join_meeting_id [of "''https://x/y/''"] C2_join_meeting_id [of "[]"]
    unfolding a b c by simp
qed

text \<open>
  Claim C9. Every run of \<open>handleStart\<close> sets \<open>meetingUrl\<close> to the empty string and
  calls \<open>onClose\<close>, once and last: after the instant meeting is created, after a
  join, and also after the validation of a join has failed and nothing was joined.
\<close>

theorem C9_modal_always_resets_and_closes:
  "fst (handleStart isJoinMeeting meetingUrl) = []
   \<and> last (snd (handleStart isJoinMeeting meetingUrl)) = OnClose
   \<and> length (filter (\<lambda>c. c = OnClose) (snd (handleStart isJoinMeeting meetingUrl))) = 1
   \<and> (isJoinMeeting \<and> last (split CHR ''/'' meetingUrl) = [] \<longrightarrow>
        handleStart isJoinMeeting meetingUrl
          = ([], [Alert ''Please enter a valid meeting URL.'', OnClose]))
   \<and> (isJoinMeeting \<and> last (split CHR ''/'' meetingUrl) \<noteq> [] \<longrightarrow>
        handleStart isJoinMeeting meetingUrl
          = ([], [JoinMeeting (last (split CHR ''/'' meetingUrl)), OnClose]))
   \<and> (\<not> isJoinMeeting \<longrightarrow>
        handleStart isJoinMeeting meetingUrl = ([], [CreateInstantMeeting, OnClose]))"
  by (cases isJoinMeeting) (simp_all add: handleStart_join handleStart_instant)

theorem C9_modal_always_resets_and_closes_witness:
  "handleStart True ''abc/'' = ([], [Alert ''Please enter a valid meeting URL.'', OnClose])
   \<and> handleStart True ''abc'' = ([], [JoinMeeting ''abc'', OnClose])
   \<and> handleStart False ''abc'' = ([], [CreateInstantMeeting, OnClose])"
proof -
  have a: "last (split CHR ''/'' ''abc/'') = []" by simp
  have b: "last (split CHR ''/'' ''abc'') = ''abc''" by simp
  show ?thesis
    using C9_modal_always_resets_and_closes [of True "''abc/''"]
      C9_modal_always_resets_and_closes [of True "''abc''"]
      C9_modal_always_resets_and_closes [of False "''abc''"]
    unfolding a b by simp
qed

section \<open>Properties of the access gate\<close>

text \<open>
  The configured patterns are lower-case already.
\<close>

lemma lower_case_patterns:
  "map lower_case ''/'' = ''/''"
  "map lower_case ''/api/webhook'' = ''/api/webhook''"
  "map lower_case ''/api/convex'' = ''/api/convex''"
  "map lower_case ''/dashboard(.*)'' = ''/dashboard(.*)''"
  "map lower_case ''/schedule(.*)'' = ''/schedule(.*)''"
  "map lower_case ''/meeting(.*)'' = ''/meeting(.*)''"
  "map lower_case ''/recordings(.*)'' = ''/recordings(.*)''"
  "map lower_case ''/_next/data/'' = ''/_next/data/''"
  by (simp_all add: lower_case_def)

text \<open>
  Unfolding the configuration: what the two route lists and the pattern set match,
  and what the gate of \<open>middleware.ts\<close> does with a request.
\<close>

lemma matches_public: "matches_any [''/''] p \<longleftrightarrow> names_route ''/'' p"
  by (simp add: matches_any_def route_matches_def names_route_def Let_def
      suffix_to_prefix lower_case_def)

lemma matches_ignored:
  "matches_any [''/api/webhook'', ''/api/convex''] p
     \<longleftrightarrow> names_route ''/api/webhook'' p \<or> names_route ''/api/convex'' p"
  by (simp add: matches_any_def route_matches_def names_route_def Let_def
      suffix_to_prefix lower_case_def)

lemma isProtectedRoute_prefix:
  "isProtectedRoute p \<longleftrightarrow>
     prefix ''/dashboard'' (map lower_case p) \<or> prefix ''/schedule'' (map lower_case p)
     \<or> prefix ''/meeting'' (map lower_case p) \<or> prefix ''/recordings'' (map lower_case p)"
  by (simp add: isProtectedRoute_def matches_any_def route_matches_def Let_def
      suffix_to_prefix lower_case_def)

lemma middleware_eq:
  "middleware req =
     (if names_route ''/api/webhook'' (path req) \<or> names_route ''/api/convex'' (path req)
      then NextIgnored
      else (case requestState req of
              Unknown \<Rightarrow> Unauthorized
            | Interstitial \<Rightarrow> InterstitialPage
            | SignedOut \<Rightarrow>
                if names_route ''/'' (path req) then Next None else SignInChallenge
            | SignedIn u \<Rightarrow> Next (Some u)))"
  by (simp add: middleware_def authMiddleware_def matches_public matches_ignored)

lemma protected_not_public_or_ignored:
  "isProtectedRoute p \<Longrightarrow>
     \<not> names_route ''/'' p \<and> \<not> names_route ''/api/webhook'' p
     \<and> \<not> names_route ''/api/convex'' p"
  by (auto simp: isProtectedRoute_prefix names_route_def Let_def)

text \<open>
  A path under a protected prefix is not a data route, so the gate sees it as it is.
\<close>

lemma protected_not_data_route:
  assumes "isProtectedRoute p"
  shows "nextUrl_pathname p = p"
proof -
  have "\<not> prefix ''/_next/data/'' p"
  proof
    assume "prefix ''/_next/data/'' p"
    then obtain r where "p = ''/_next/data/'' @ r" by (auto simp: prefix_def)
    then have "map lower_case p = ''/_next/data/'' @ map lower_case r"
      using lower_case_patterns(8) by simp
    with assms show False by (simp add: isProtectedRoute_prefix)
  qed
  then show ?thesis by (simp add: nextUrl_pathname_def)
qed

text \<open>
  Claim C1, as stated, speaks of every request whose path is protected. The matcher of
  \<open>middleware.ts\<close> passes over a path that holds a static file extension, whatever
  its prefix: for \<open>/meeting/abc123.js\<close>, which is under a protected prefix, the
  gate is not run, and a request without a session is not answered with any redirect.
\<close>

theorem C1_static_path_counterexample:
  "isProtectedRoute ''/meeting/abc123.js''
   \<and> handle \<lparr>path = ''/meeting/abc123.js'', requestState = SignedOut\<rparr> = None"
  by (simp add: isProtectedRoute_prefix lower_case_def handle_def matcher_def
      source_matcher_def next_data_rest_def extension_here_def static_extensions_def)

text \<open>
  Claim C1, amended. For every request that \<open>config.matcher\<close> selects, whose path
  is under one of the protected prefixes (dashboard, schedule, meeting, recordings)
  and that carries no valid session, the gate answers the request itself: with the
  sign-in challenge when the request is signed out, with the interstitial page or the
  unauthorised response when the session state is not settled. Such a request is let
  through neither as an ignored route nor with any authentication state.
\<close>

theorem C1_selected_protected_unauthenticated_challenged:
  "matcher (path req) \<Longrightarrow> isProtectedRoute (path req)
     \<Longrightarrow> \<forall>u. requestState req \<noteq> SignedIn u
     \<Longrightarrow> (requestState req = SignedOut \<longrightarrow> handle req = Some SignInChallenge)
         \<and> (requestState req = Interstitial \<longrightarrow> handle req = Some InterstitialPage)
         \<and> (requestState req = Unknown \<longrightarrow> handle req = Some Unauthorized)
         \<and> handle req \<noteq> None \<and> handle req \<noteq> Some NextIgnored
         \<and> (\<forall>v. handle req \<noteq> Some (Next v))"
  using protected_not_public_or_ignored [of "path req"]
    protected_not_data_route [of "path req"]
  by (cases "requestState req") (simp_all add: handle_def middleware_eq)

theorem C1_selected_protected_unauthenticated_challenged_witness:
  "matcher ''/meeting/abc123'' \<and> isProtectedRoute ''/meeting/abc123''
   \<and> handle \<lparr>path = ''/meeting/abc123'', requestState = SignedOut\<rparr> = Some SignInChallenge"
proof -
  have m: "matcher (path \<lparr>path = ''/meeting/abc123'', requestState = SignedOut\<rparr>)"
    by (simp add: matcher_def source_matcher_def extension_here_def static_extensions_def)
  have a: "isProtectedRoute (path \<lparr>path = ''/meeting/abc123'', requestState = SignedOut\<rparr>)"
    by (simp add: isProtectedRoute_prefix lower_case_def)
  have b: "\<forall>u. requestState \<lparr>path = ''/meeting/abc123'', requestState = SignedOut\<rparr>
             \<noteq> SignedIn u"
    by simp
  from C1_selected_protected_unauthenticated_challenged [OF m a b] m a
  show ?thesis by simp
qed

text \<open>
  What the matcher selects: the root, the two ignored routes, the application's pages
  and their data routes; and what it passes over: static files and the framework's
  own paths. The gate sees a data route as the route of its page.
\<close>

lemma matcher_root_and_ignored:
  "matcher ''/'' \<and> matcher ''/api/webhook'' \<and> matcher ''/api/convex''"
  by (simp add: matcher_def source_matcher_def)

lemma matcher_takes_pages:
  "matcher ''/dashboard'' \<and> matcher ''/meeting/abc123''
   \<and> matcher ''/_next/data/build1/dashboard.json''"
  by (simp add: matcher_def source_matcher_def next_data_rest_def extension_here_def
      static_extensions_def)

lemma matcher_skips_static_and_internal:
  "\<not> matcher ''/dashboard/report.csv'' \<and> \<not> matcher ''/_next/static/chunks/main.js''
   \<and> \<not> matcher ''/_next/data/build1/dashboard/report.csv''"
  by (simp add: matcher_def source_matcher_def next_data_rest_def extension_here_def
      static_extensions_def)

lemma data_route_seen_as_page:
  "handle \<lparr>path = ''/_next/data/build1/dashboard.json'', requestState = SignedOut\<rparr>
     = Some SignInChallenge
   \<and> handle \<lparr>path = ''/_next/data/build1/index.json'', requestState = SignedOut\<rparr>
     = Some (Next None)"
  by (simp add: handle_def matcher_def source_matcher_def next_data_rest_def
      extension_here_def static_extensions_def nextUrl_pathname_def suffix_to_prefix
      middleware_eq names_route_def lower_case_def)

lemma names_route_self:
  "names_route ''/'' ''/'' \<and> names_route ''/api/webhook'' ''/api/webhook''
   \<and> names_route ''/api/convex'' ''/api/convex''
   \<and> names_route ''/api/webhook'' ''/API/Webhook''
   \<and> names_route ''/api/webhook'' ''/api/webhook/''"
  by (simp add: names_route_def lower_case_def)

lemma not_data_route:
  "nextUrl_pathname ''/'' = ''/'' \<and> nextUrl_pathname ''/api/webhook'' = ''/api/webhook''
   \<and> nextUrl_pathname ''/api/convex'' = ''/api/convex''"
  by (simp add: nextUrl_pathname_def)

text \<open>
  Claim C6, as stated, says that a path is protected if and only if it matches the
  pattern set of the four prefixes, and that the root is always allowed. The gate of
  \<open>middleware.ts\<close> is configured with a public route and two ignored routes only,
  and asks for a session on every other path: \<open>/settings\<close> is protected and is
  under none of the four prefixes. And while the session state of a request is not
  settled, the gate answers a request for the root itself, with the interstitial page.
\<close>

theorem C6_classification_counterexample:
  "path_protected ''/settings'' \<and> \<not> isProtectedRoute ''/settings''
   \<and> middleware \<lparr>path = ''/'', requestState = Interstitial\<rparr> = InterstitialPage
   \<and> middleware \<lparr>path = ''/'', requestState = Interstitial\<rparr> \<noteq> Next None"
  by (simp add: path_protected_def middleware_eq isProtectedRoute_prefix names_route_def
      lower_case_def)

text \<open>
  Claim C6, amended. A path is protected if and only if it names neither the root nor
  one of the two ignored routes, where a path names a route when it is the route's
  text up to the case of letters, with at most one trailing delimiter. Every path
  under the dashboard, schedule, meeting and recordings prefixes is therefore
  protected, and so is every other such path. A request for the root needs no
  credential: signed out or signed in, it is let through with that state. A request
  for an ignored route is let through with no authentication check, in every session
  state. Only while the session state is not settled does the gate answer a request
  for the root, as for every path that is not ignored, itself. The matcher selects
  the root and the two ignored routes, so the gate does run on them.
\<close>

theorem C6_gate_classification:
  "(path_protected p \<longleftrightarrow>
      \<not> names_route ''/'' p \<and> \<not> names_route ''/api/webhook'' p
      \<and> \<not> names_route ''/api/convex'' p)
   \<and> (isProtectedRoute p \<longrightarrow> path_protected p)
   \<and> (names_route ''/'' p \<longrightarrow>
        middleware \<lparr>path = p, requestState = SignedOut\<rparr> = Next None
        \<and> middleware \<lparr>path = p, requestState = SignedIn u\<rparr> = Next (Some u))
   \<and> (names_route ''/api/webhook'' p \<or> names_route ''/api/convex'' p \<longrightarrow>
        middleware \<lparr>path = p, requestState = s\<rparr> = NextIgnored)
   \<and> (\<not> names_route ''/api/webhook'' p \<and> \<not> names_route ''/api/convex'' p \<longrightarrow>
        middleware \<lparr>path = p, requestState = Interstitial\<rparr> = InterstitialPage
        \<and> middleware \<lparr>path = p, requestState = Unknown\<rparr> = Unauthorized)
   \<and> handle \<lparr>path = ''/'', requestState = SignedOut\<rparr> = Some (Next None)
   \<and> handle \<lparr>path = ''/'', requestState = SignedIn u\<rparr> = Some (Next (Some u))
   \<and> handle \<lparr>path = ''/api/webhook'', requestState = s\<rparr> = Some NextIgnored
   \<and> handle \<lparr>path = ''/api/convex'', requestState = s\<rparr> = Some NextIgnored"
proof -
  have root_not_ignored:
    "names_route ''/'' p \<Longrightarrow>
       \<not> names_route ''/api/webhook'' p \<and> \<not> names_route ''/api/convex'' p"
    by (auto simp: names_route_def Let_def)
  have 1: "path_protected p \<longleftrightarrow>
      \<not> names_route ''/'' p \<and> \<not> names_route ''/api/webhook'' p
      \<and> \<not> names_route ''/api/convex'' p"
    by (simp add: path_protected_def middleware_eq)
  have 2: "isProtectedRoute p \<longrightarrow> path_protected p"
    using protected_not_public_or_ignored [of p] 1 by blast
  have 3: "names_route ''/'' p \<longrightarrow>
        middleware \<lparr>path = p, requestState = SignedOut\<rparr> = Next None
        \<and> middleware \<lparr>path = p, requestState = SignedIn u\<rparr> = Next (Some u)"
    using root_not_ignored by (simp add: middleware_eq)
  have 4: "names_route ''/api/webhook'' p \<or> names_route ''/api/convex'' p \<longrightarrow>
        middleware \<lparr>path = p, requestState = s\<rparr> = NextIgnored"
    by (simp add: middleware_eq)
  have 5: "\<not> names_route ''/api/webhook'' p \<and> \<not> names_route ''/api/convex'' p \<longrightarrow>
        middleware \<lparr>path = p, requestState = Interstitial\<rparr> = InterstitialPage
        \<and> middleware \<lparr>path = p, requestState = Unknown\<rparr> = Unauthorized"
    by (simp add: middleware_eq)
  have 6: "handle \<lparr>path = ''/'', requestState = SignedOut\<rparr> = Some (Next None)
     \<and> handle \<lparr>path = ''/'', requestState = SignedIn u\<rparr> = Some (Next (Some u))
     \<and> handle \<lparr>path = ''/api/webhook'', requestState = s\<rparr> = Some NextIgnored
     \<and> handle \<lparr>path = ''/api/convex'', requestState = s\<rparr> = Some NextIgnored"
    using matcher_root_and_ignored not_data_route names_route_self
    by (simp add: handle_def middleware_eq names_route_def lower_case_def)
  from 1 2 3 4 5 6 show ?thesis by (intro conjI) (elim conjE, assumption)+
qed

theorem C6_gate_classification_witness:
  "path_protected ''/recordings'' \<and> path_protected ''/settings''
   \<and> middleware \<lparr>path = ''/'', requestState = SignedOut\<rparr> = Next None
   \<and> middleware \<lparr>path = ''/API/Webhook'', requestState = SignedOut\<rparr> = NextIgnored
   \<and> middleware \<lparr>path = ''/settings'', requestState = Interstitial\<rparr> = InterstitialPage"
proof -
  have a: "isProtectedRoute ''/recordings''"
    by (simp add: isProtectedRoute_prefix lower_case_def)
  have b: "\<not> names_route ''/'' ''/settings'' \<and> \<not> names_route ''/api/webhook'' ''/settings''
           \<and> \<not> names_route ''/api/convex'' ''/settings''"
    by (simp add: names_route_def lower_case_def)
  have c: "names_route ''/'' ''/''" by (simp add: names_route_def lower_case_def)
  have d: "names_route ''/api/webhook'' ''/API/Webhook''"
    by (simp add: names_route_def lower_case_def)
  from a C6_gate_classification [of "''/recordings''"]
  have 1: "path_protected ''/recordings''" by blast
  from b C6_gate_classification [of "''/settings''"]
  have 2: "path_protected ''/settings''
           \<and> middleware \<lparr>path = ''/settings'', requestState = Interstitial\<rparr> = InterstitialPage"
    by blast
  from c C6_gate_classification [of "''/''"]
  have 3: "middleware \<lparr>path = ''/'', requestState = SignedOut\<rparr> = Next None" by blast
  from d C6_gate_classification [of "''/API/Webhook''" _ SignedOut]
  have 4: "middleware \<lparr>path = ''/API/Webhook'', requestState = SignedOut\<rparr> = NextIgnored"
    by blast
  from 1 2 3 4 show ?thesis by blast
qed

section \<open>Properties of the role resolution and its consumers\<close>

text \<open>
  Claim C3, as stated, says that the hook's answer is always one of loading,
  interviewer and candidate, with candidate the default when no interviewer role is
  recorded, and that it is loading while the identity or the record is unresolved,
  with no role reported before both lookups complete. When the record lookup has
  completed and found no user document, the hook reports neither loading nor
  interviewer nor candidate. And the hook does not read whether the identity has
  loaded: with no identity it makes the lookup with the empty id, so it is not
  loading once that lookup has resolved, and it reports the role of a document that
  the lookup finds.
\<close>

theorem C3_tri_state_counterexample:
  "\<not> tri_state (useUserRole (Some \<lparr>clerk_id = ''user_1''\<rparr>) no_user_docs)
   \<and> \<not> isLoading (useUserRole (Some \<lparr>clerk_id = ''user_1''\<rparr>) no_user_docs)
   \<and> \<not> isInterviewer (useUserRole (Some \<lparr>clerk_id = ''user_1''\<rparr>) no_user_docs)
   \<and> \<not> isCandidate (useUserRole (Some \<lparr>clerk_id = ''user_1''\<rparr>) no_user_docs)
   \<and> \<not> isLoading (useUserRole None no_user_docs)
   \<and> isInterviewer (useUserRole None blank_id_docs)"
  by (simp add: tri_state_def useUserRole_def no_user_docs_def blank_id_docs_def)

lemma tri_state_iff:
  "tri_state f \<longleftrightarrow>
     (isLoading f \<and> \<not> isInterviewer f \<and> \<not> isCandidate f)
     \<or> (\<not> isLoading f \<and> (isInterviewer f \<noteq> isCandidate f))"
  by (cases f) (auto simp: tri_state_def)

text \<open>
  Claim C3, amended. The hook returns three flags computed from the user-record
  lookup, which is keyed by the identity's id and, while there is no identity, by the
  empty id; the identity enters the result through that key only. \<open>isLoading\<close>
  holds exactly while that lookup's result is undefined, and then no role flag is
  set: no role is reported before the record lookup completes, and the hook waits for
  nothing else. The two role flags are never set together;
  \<open>isInterviewer\<close> holds exactly when the document found has the role
  \<open>interviewer\<close>, \<open>isCandidate\<close> exactly when it has the role \<open>candidate\<close>.
  So the answer is one of loading, interviewer and candidate exactly when the lookup
  is unresolved or has found a document with one of the two roles; candidate is not a
  default, and a lookup that finds no document sets no flag.
\<close>

theorem C3_role_flags:
  "isLoading (useUserRole user q) = (q (or_empty (map_option clerk_id user)) = Undefined)
   \<and> (isLoading (useUserRole user q) \<longrightarrow>
        \<not> isInterviewer (useUserRole user q) \<and> \<not> isCandidate (useUserRole user q))
   \<and> \<not> (isInterviewer (useUserRole user q) \<and> isCandidate (useUserRole user q))
   \<and> isInterviewer (useUserRole user q)
       = (\<exists>d. q (or_empty (map_option clerk_id user)) = Doc d \<and> role d = ''interviewer'')
   \<and> isCandidate (useUserRole user q)
       = (\<exists>d. q (or_empty (map_option clerk_id user)) = Doc d \<and> role d = ''candidate'')
   \<and> tri_state (useUserRole user q)
       = (q (or_empty (map_option clerk_id user)) = Undefined
          \<or> (\<exists>d. q (or_empty (map_option clerk_id user)) = Doc d
                \<and> (role d = ''interviewer'' \<or> role d = ''candidate'')))
   \<and> isLoading (useUserRole None q) = (q [] = Undefined)
   \<and> (or_empty (map_option clerk_id user) = or_empty (map_option clerk_id user') \<longrightarrow>
        useUserRole user q = useUserRole user' q)"
proof -
  have flags: "isLoading (useUserRole user q)
       = (q (or_empty (map_option clerk_id user)) = Undefined)
   \<and> (isLoading (useUserRole user q) \<longrightarrow>
        \<not> isInterviewer (useUserRole user q) \<and> \<not> isCandidate (useUserRole user q))
   \<and> \<not> (isInterviewer (useUserRole user q) \<and> isCandidate (useUserRole user q))
   \<and> isInterviewer (useUserRole user q)
       = (\<exists>d. q (or_empty (map_option clerk_id user)) = Doc d \<and> role d = ''interviewer'')
   \<and> isCandidate (useUserRole user q)
       = (\<exists>d. q (or_empty (map_option clerk_id user)) = Doc d \<and> role d = ''candidate'')
   \<and> tri_state (useUserRole user q)
       = (q (or_empty (map_option clerk_id user)) = Undefined
          \<or> (\<exists>d. q (or_empty (map_option clerk_id user)) = Doc d
                \<and> (role d = ''interviewer'' \<or> role d = ''candidate'')))"
    by (cases "q (or_empty (map_option clerk_id user))")
       (auto simp: tri_state_iff useUserRole_def)
  have no_identity: "isLoading (useUserRole None q) = (q [] = Undefined)"
    by (simp add: useUserRole_def Let_def)
  have key_only:
    "or_empty (map_option clerk_id user) = or_empty (map_option clerk_id user') \<longrightarrow>
       useUserRole user q = useUserRole user' q"
    by (simp add: useUserRole_def)
  from flags no_identity key_only show ?thesis
    by (intro conjI) (elim conjE, assumption)+
qed

theorem C3_role_flags_witness:
  "isLoading (useUserRole (Some \<lparr>clerk_id = ''user_3''\<rparr>) sample_user_docs)
   \<and> \<not> isInterviewer (useUserRole (Some \<lparr>clerk_id = ''user_3''\<rparr>) sample_user_docs)
   \<and> \<not> isCandidate (useUserRole (Some \<lparr>clerk_id = ''user_3''\<rparr>) sample_user_docs)
   \<and> isInterviewer (useUserRole (Some \<lparr>clerk_id = ''user_1''\<rparr>) sample_user_docs)
   \<and> isCandidate (useUserRole (Some \<lparr>clerk_id = ''user_2''\<rparr>) sample_user_docs)
   \<and> useUserRole None sample_user_docs
       = useUserRole (Some \<lparr>clerk_id = []\<rparr>) sample_user_docs"
proof -
  have a: "sample_user_docs (or_empty (map_option clerk_id (Some \<lparr>clerk_id = ''user_3''\<rparr>)))
             = Undefined"
    by (simp add: sample_user_docs_def)
  have b: "sample_user_docs (or_empty (map_option clerk_id (Some \<lparr>clerk_id = ''user_1''\<rparr>)))
             = Doc \<lparr>role = ''interviewer''\<rparr>"
    by (simp add: sample_user_docs_def)
  have c: "sample_user_docs (or_empty (map_option clerk_id (Some \<lparr>clerk_id = ''user_2''\<rparr>)))
             = Doc \<lparr>role = ''candidate''\<rparr>"
    by (simp add: sample_user_docs_def)
  have d: "or_empty (map_option clerk_id None)
             = or_empty (map_option clerk_id (Some \<lparr>clerk_id = []\<rparr>))"
    by simp
  show ?thesis
    using C3_role_flags [of "Some \<lparr>clerk_id = ''user_3''\<rparr>" sample_user_docs]
      C3_role_flags [of "Some \<lparr>clerk_id = ''user_1''\<rparr>" sample_user_docs]
      C3_role_flags [of "Some \<lparr>clerk_id = ''user_2''\<rparr>" sample_user_docs]
      C3_role_flags [of None sample_user_docs "Some \<lparr>clerk_id = []\<rparr>"] d
    unfolding a b c by simp
qed

lemma useUserRole_sel:
  "isLoading (useUserRole user q) = (q (or_empty (map_option clerk_id user)) = Undefined)"
  "isInterviewer (useUserRole user q)
     = (role_of (q (or_empty (map_option clerk_id user))) = Some ''interviewer'')"
  "isCandidate (useUserRole user q)
     = (role_of (q (or_empty (map_option clerk_id user))) = Some ''candidate'')"
  by (simp_all add: useUserRole_def Let_def)

lemma DashboardBtn_iff:
  "DashboardBtn f = Some DashboardLink \<longleftrightarrow> \<not> isLoading f \<and> \<not> isCandidate f"
  "DashboardBtn f = None \<longleftrightarrow> isLoading f \<or> isCandidate f"
  by (auto simp: DashboardBtn_def)

text \<open>
  Claim C8. The dashboard button renders nothing while the role is loading and
  nothing for a candidate; it renders the dashboard link exactly when resolution has
  completed with a result that is not candidate, which on the hook means that the
  lookup is resolved and the role found is not \<open>candidate\<close>. The two pages that
  read the hook show the loader while it is loading, and their role-gated content
  only once it is not loading and the role is theirs.
\<close>

theorem C8_dashboard_button_waits_for_role:
  "(isLoading f \<longrightarrow> DashboardBtn f = None)
   \<and> (isCandidate f \<longrightarrow> DashboardBtn f = None)
   \<and> (DashboardBtn f = Some DashboardLink \<longleftrightarrow> \<not> isLoading f \<and> \<not> isCandidate f)
   \<and> (DashboardBtn f = None \<or> DashboardBtn f = Some DashboardLink)
   \<and> (q (or_empty (map_option clerk_id user)) = Undefined \<longrightarrow>
        DashboardBtn (useUserRole user q) = None)
   \<and> (DashboardBtn (useUserRole user q) = Some DashboardLink \<longleftrightarrow>
        q (or_empty (map_option clerk_id user)) \<noteq> Undefined
        \<and> role_of (q (or_empty (map_option clerk_id user))) \<noteq> Some ''candidate'')
   \<and> (isLoading f \<longrightarrow>
        SchedulePage f = LoaderUI \<and> InterviewHistoryPage f = LoaderUI)
   \<and> (role_gated (SchedulePage f) \<longrightarrow> \<not> isLoading f \<and> isInterviewer f)
   \<and> (role_gated (InterviewHistoryPage f) \<longrightarrow> \<not> isLoading f \<and> isCandidate f)"
proof -
  have pages: "(isLoading f \<longrightarrow> SchedulePage f = LoaderUI \<and> InterviewHistoryPage f = LoaderUI)
     \<and> (role_gated (SchedulePage f) \<longrightarrow> \<not> isLoading f \<and> isInterviewer f)
     \<and> (role_gated (InterviewHistoryPage f) \<longrightarrow> \<not> isLoading f \<and> isCandidate f)"
    by (simp add: SchedulePage_def InterviewHistoryPage_def)
  have btn: "(isLoading f \<longrightarrow> DashboardBtn f = None)
     \<and> (isCandidate f \<longrightarrow> DashboardBtn f = None)
     \<and> (DashboardBtn f = Some DashboardLink \<longleftrightarrow> \<not> isLoading f \<and> \<not> isCandidate f)
     \<and> (DashboardBtn f = None \<or> DashboardBtn f = Some DashboardLink)"
    by (simp add: DashboardBtn_def)
  have a: "q (or_empty (map_option clerk_id user)) = Undefined \<longrightarrow>
        DashboardBtn (useUserRole user q) = None"
    by (simp add: DashboardBtn_iff useUserRole_sel)
  have b: "DashboardBtn (useUserRole user q) = Some DashboardLink \<longleftrightarrow>
        q (or_empty (map_option clerk_id user)) \<noteq> Undefined
        \<and> role_of (q (or_empty (map_option clerk_id user))) \<noteq> Some ''candidate''"
    by (simp add: DashboardBtn_iff useUserRole_sel)
  from btn a b pages show ?thesis by (intro conjI) (elim conjE, assumption)+
qed

theorem C8_dashboard_button_waits_for_role_witness:
  "DashboardBtn (flags_of Loading) = None
   \<and> DashboardBtn (flags_of Candidate) = None
   \<and> DashboardBtn (flags_of Interviewer) = Some DashboardLink
   \<and> DashboardBtn (useUserRole (Some \<lparr>clerk_id = ''user_3''\<rparr>) sample_user_docs) = None
   \<and> SchedulePage (flags_of Loading) = LoaderUI
   \<and> InterviewHistoryPage (flags_of Loading) = LoaderUI"
proof -
  have a: "sample_user_docs (or_empty (map_option clerk_id (Some \<lparr>clerk_id = ''user_3''\<rparr>)))
             = Undefined"
    by (simp add: sample_user_docs_def)
  have l: "isLoading (flags_of Loading)" by simp
  have c: "isCandidate (flags_of Candidate)" by simp
  have i: "\<not> isLoading (flags_of Interviewer) \<and> \<not> isCandidate (flags_of Interviewer)" by simp
  note L = C8_dashboard_button_waits_for_role
             [of "flags_of Loading" sample_user_docs "Some \<lparr>clerk_id = ''user_3''\<rparr>"]
  note C = C8_dashboard_button_waits_for_role
             [of "flags_of Candidate" sample_user_docs "Some \<lparr>clerk_id = ''user_3''\<rparr>"]
  note I = C8_dashboard_button_waits_for_role
             [of "flags_of Interviewer" sample_user_docs "Some \<lparr>clerk_id = ''user_3''\<rparr>"]
  from L l a have 1: "DashboardBtn (flags_of Loading) = None"
    and 4: "DashboardBtn (useUserRole (Some \<lparr>clerk_id = ''user_3''\<rparr>) sample_user_docs) = None"
    and 5: "SchedulePage (flags_of Loading) = LoaderUI"
    and 6: "InterviewHistoryPage (flags_of Loading) = LoaderUI"
    by blast+
  from C c have 2: "DashboardBtn (flags_of Candidate) = None" by blast
  from I i have 3: "DashboardBtn (flags_of Interviewer) = Some DashboardLink" by blast
  from 1 2 3 4 5 6 show ?thesis by blast
qed

section \<open>Properties of the end-call control\<close>

lemma EndCallButton_Some_iff:
  "EndCallButton call lp q = Some v \<longleftrightarrow>
     (\<exists>c iv. call = Some c \<and> q (call_id c) = Doc iv
        \<and> map_option participant_userId lp = map_option user_id (createdBy c)
        \<and> v = EndMeetingButton iv)"
  by (cases call; cases "q (call_id (the call))")
     (auto simp: EndCallButton_def Let_def)

text \<open>
  When the component renders the button: the call is set, the interview lookup keyed
  by the call's id has given a document, and the two optional ids of the owner test
  are equal under \<open>===\<close>. With a participant and a creator both present that is
  equality of their ids; with no call, or with the interview lookup undefined or
  null, nothing is rendered.
\<close>

lemma EndCallButton_rendered_iff:
  "(EndCallButton call lp q \<noteq> None \<longleftrightarrow>
      (\<exists>c iv. call = Some c \<and> q (call_id c) = Doc iv
         \<and> map_option participant_userId lp = map_option user_id (createdBy c)))
   \<and> (call = None \<longrightarrow> EndCallButton call lp q = None)
   \<and> (\<forall>c. call = Some c \<and> (q (call_id c) = Undefined \<or> q (call_id c) = Null) \<longrightarrow>
          EndCallButton call lp q = None)
   \<and> (\<forall>c iv p u. call = Some c \<and> q (call_id c) = Doc iv \<and> lp = Some p
          \<and> createdBy c = Some u \<longrightarrow>
          EndCallButton call lp q
            = (if participant_userId p = user_id u then Some (EndMeetingButton iv) else None))"
proof -
  have 1: "EndCallButton call lp q \<noteq> None \<longleftrightarrow>
      (\<exists>c iv. call = Some c \<and> q (call_id c) = Doc iv
         \<and> map_option participant_userId lp = map_option user_id (createdBy c))"
    by (cases call; cases "q (call_id (the call))") (auto simp: EndCallButton_def)
  have 2: "call = None \<longrightarrow> EndCallButton call lp q = None"
    by (simp add: EndCallButton_def)
  have 3: "\<forall>c. call = Some c \<and> (q (call_id c) = Undefined \<or> q (call_id c) = Null) \<longrightarrow>
          EndCallButton call lp q = None"
    by (auto simp: EndCallButton_def)
  have 4: "\<forall>c iv p u. call = Some c \<and> q (call_id c) = Doc iv \<and> lp = Some p
          \<and> createdBy c = Some u \<longrightarrow>
          EndCallButton call lp q
            = (if participant_userId p = user_id u then Some (EndMeetingButton iv) else None)"
    by (auto simp: EndCallButton_def)
  from 1 2 3 4 show ?thesis by blast
qed

lemma EndCallButton_examples:
  "EndCallButton (Some sample_call) (Some \<lparr>participant_userId = ''user_1''\<rparr>) sample_interviews
     = Some (EndMeetingButton \<lparr>interview_id = ''interview_1''\<rparr>)
   \<and> EndCallButton (Some sample_call) (Some \<lparr>participant_userId = ''user_2''\<rparr>) sample_interviews
     = None
   \<and> EndCallButton None (Some \<lparr>participant_userId = ''user_1''\<rparr>) sample_interviews = None
   \<and> EndCallButton (Some (sample_call\<lparr>call_id := ''call_2''\<rparr>))
        (Some \<lparr>participant_userId = ''user_1''\<rparr>) sample_interviews = None"
proof -
  have q1: "sample_interviews (call_id sample_call) = Doc \<lparr>interview_id = ''interview_1''\<rparr>"
    by (simp add: sample_interviews_def sample_call_def)
  have q2: "sample_interviews (call_id (sample_call\<lparr>call_id := ''call_2''\<rparr>)) = Undefined"
    by (simp add: sample_interviews_def)
  have cb: "createdBy sample_call = Some \<lparr>user_id = ''user_1''\<rparr>"
    by (simp add: sample_call_def)
  have a: "EndCallButton (Some sample_call) (Some \<lparr>participant_userId = ''user_1''\<rparr>)
             sample_interviews = Some (EndMeetingButton \<lparr>interview_id = ''interview_1''\<rparr>)"
    using EndCallButton_rendered_iff
      [of "Some sample_call" "Some \<lparr>participant_userId = ''user_1''\<rparr>" sample_interviews]
      q1 cb by simp
  have b: "EndCallButton (Some sample_call) (Some \<lparr>participant_userId = ''user_2''\<rparr>)
             sample_interviews = None"
    using EndCallButton_rendered_iff
      [of "Some sample_call" "Some \<lparr>participant_userId = ''user_2''\<rparr>" sample_interviews]
      q1 cb by simp
  have c: "EndCallButton None (Some \<lparr>participant_userId = ''user_1''\<rparr>) sample_interviews = None"
    using EndCallButton_rendered_iff
      [of None "Some \<lparr>participant_userId = ''user_1''\<rparr>" sample_interviews]
    by simp
  have d: "EndCallButton (Some (sample_call\<lparr>call_id := ''call_2''\<rparr>))
        (Some \<lparr>participant_userId = ''user_1''\<rparr>) sample_interviews = None"
    using EndCallButton_rendered_iff
      [of "Some (sample_call\<lparr>call_id := ''call_2''\<rparr>)"
          "Some \<lparr>participant_userId = ''user_1''\<rparr>" sample_interviews]
      q2 by simp
  from a b c d show ?thesis by simp
qed

text \<open>
  Claim C4 says that the button is rendered only when the local participant's id
  equals the creator id recorded on the call, and that in every other case nothing
  is rendered. The owner test of the component compares two optional ids, and misses
  the case in which both are missing: on a resolved call that records no creator,
  with the interview found and no local participant, \<open>undefined === undefined\<close>
  holds, and the button is rendered for a client that is not the creator.
\<close>

theorem C4_button_rendered_without_owner:
  "EndCallButton (Some creatorless_call) None sample_interviews
     = Some (EndMeetingButton \<lparr>interview_id = ''interview_1''\<rparr>)"
  by (simp add: EndCallButton_def creatorless_call_def sample_interviews_def)

lemma endCall_cases:
  "endCall sv iv =
     (case call_endCall sv of
        Some e \<Rightarrow> [ConsoleError e, ToastError ''Failed to end the meeting. Please try again.'']
      | None \<Rightarrow>
          (case updateInterviewStatus sv (interview_id iv) ''completed'' of
             Some e \<Rightarrow>
               [CallEnded, ConsoleError e,
                ToastError ''Failed to end the meeting. Please try again.'']
           | None \<Rightarrow>
               (case router_push sv ''/'' of
                  Some e \<Rightarrow>
                    [CallEnded, InterviewStatusUpdated (interview_id iv) ''completed'',
                     ConsoleError e,
                     ToastError ''Failed to end the meeting. Please try again.'']
                | None \<Rightarrow>
                    [CallEnded, InterviewStatusUpdated (interview_id iv) ''completed'',
                     RouterPushed ''/'', ToastSuccess ''Meeting ended for everyone.''])))"
  by (simp add: endCall_def on_error_def split: option.splits)

text \<open>
  Claim C5. The steps of the end-call action that complete are, in this order, an
  initial part of: end the call, mark the interview \<open>completed\<close>, navigate to
  \<open>/\<close>. When all three complete, the success notification follows. When one of
  them throws, the error is logged and the failure notification is shown, and nothing
  else happens: the steps completed before it are not undone (the call stays ended,
  the interview stays completed), and the later steps are not run.
\<close>

theorem C5_end_call_steps_in_order:
  "prefix (filter is_step (endCall sv iv))
      [CallEnded, InterviewStatusUpdated (interview_id iv) ''completed'', RouterPushed ''/'']
   \<and> (call_endCall sv = None
        \<and> updateInterviewStatus sv (interview_id iv) ''completed'' = None
        \<and> router_push sv ''/'' = None \<longrightarrow>
        endCall sv iv =
          [CallEnded, InterviewStatusUpdated (interview_id iv) ''completed'',
           RouterPushed ''/'', ToastSuccess ''Meeting ended for everyone.''])
   \<and> (call_endCall sv = Some e \<longrightarrow>
        endCall sv iv =
          [ConsoleError e, ToastError ''Failed to end the meeting. Please try again.''])
   \<and> (call_endCall sv = None
        \<and> updateInterviewStatus sv (interview_id iv) ''completed'' = Some e \<longrightarrow>
        endCall sv iv =
          [CallEnded, ConsoleError e,
           ToastError ''Failed to end the meeting. Please try again.'']
        \<and> call_ended (run_endCall sv iv w)
        \<and> interview_status (run_endCall sv iv w) = interview_status w)
   \<and> (call_endCall sv = None
        \<and> updateInterviewStatus sv (interview_id iv) ''completed'' = None
        \<and> router_push sv ''/'' = Some e \<longrightarrow>
        endCall sv iv =
          [CallEnded, InterviewStatusUpdated (interview_id iv) ''completed'',
           ConsoleError e, ToastError ''Failed to end the meeting. Please try again.'']
        \<and> call_ended (run_endCall sv iv w)
        \<and> interview_status (run_endCall sv iv w) (interview_id iv) = Some ''completed''
        \<and> route (run_endCall sv iv w) = route w)"
  by (simp add: endCall_cases run_endCall_def split: option.splits)

theorem C5_end_call_steps_in_order_witness:
  "endCall all_fine \<lparr>interview_id = ''interview_1''\<rparr> =
     [CallEnded, InterviewStatusUpdated ''interview_1'' ''completed'',
      RouterPushed ''/'', ToastSuccess ''Meeting ended for everyone.'']
   \<and> endCall mutation_fails \<lparr>interview_id = ''interview_1''\<rparr> =
     [CallEnded, ConsoleError ''ConvexError'',
      ToastError ''Failed to end the meeting. Please try again.'']
   \<and> call_ended (run_endCall mutation_fails \<lparr>interview_id = ''interview_1''\<rparr> sample_world)
   \<and> endCall end_fails \<lparr>interview_id = ''interview_1''\<rparr> =
     [ConsoleError ''StreamError'',
      ToastError ''Failed to end the meeting. Please try again.'']"
proof -
  have a: "call_endCall all_fine = None
     \<and> updateInterviewStatus all_fine (interview_id \<lparr>interview_id = ''interview_1''\<rparr>)
         ''completed'' = None
     \<and> router_push all_fine ''/'' = None"
    by (simp add: all_fine_def)
  have b: "call_endCall mutation_fails = None
     \<and> updateInterviewStatus mutation_fails (interview_id \<lparr>interview_id = ''interview_1''\<rparr>)
         ''completed'' = Some ''ConvexError''"
    by (simp add: mutation_fails_def all_fine_def)
  have c: "call_endCall end_fails = Some ''StreamError''"
    by (simp add: end_fails_def all_fine_def)
  have i: "interview_id \<lparr>interview_id = ''interview_1''\<rparr> = ''interview_1''" by simp
  from a C5_end_call_steps_in_order [of all_fine "\<lparr>interview_id = ''interview_1''\<rparr>"]
  have 1: "endCall all_fine \<lparr>interview_id = ''interview_1''\<rparr> =
     [CallEnded, InterviewStatusUpdated ''interview_1'' ''completed'',
      RouterPushed ''/'', ToastSuccess ''Meeting ended for everyone.'']"
    unfolding i by blast
  from b C5_end_call_steps_in_order
    [of mutation_fails "\<lparr>interview_id = ''interview_1''\<rparr>" "''ConvexError''" sample_world]
  have 2: "endCall mutation_fails \<lparr>interview_id = ''interview_1''\<rparr> =
     [CallEnded, ConsoleError ''ConvexError'',
      ToastError ''Failed to end the meeting. Please try again.'']
     \<and> call_ended (run_endCall mutation_fails \<lparr>interview_id = ''interview_1''\<rparr> sample_world)"
    unfolding i by blast
  from c C5_end_call_steps_in_order
    [of end_fails "\<lparr>interview_id = ''interview_1''\<rparr>" "''StreamError''"]
  have 3: "endCall end_fails \<lparr>interview_id = ''interview_1''\<rparr> =
     [ConsoleError ''StreamError'',
      ToastError ''Failed to end the meeting. Please try again.'']"
    by blast
  from 1 2 3 show ?thesis by blast
qed

text \<open>
  Claim C10. When ending the call throws, the action does nothing but log the error
  and show the failure notification: no step is run, the status of every interview
  is what it was, and so is the route.
\<close>

theorem C10_nothing_after_failed_end:
  "call_endCall sv = Some e \<Longrightarrow>
     endCall sv iv = [ConsoleError e, ToastError ''Failed to end the meeting. Please try again.'']
     \<and> \<not> list_ex is_step (endCall sv iv)
     \<and> interview_status (run_endCall sv iv w) = interview_status w
     \<and> route (run_endCall sv iv w) = route w"
  by (simp add: endCall_cases run_endCall_def)

theorem C10_nothing_after_failed_end_witness:
  "endCall end_fails \<lparr>interview_id = ''interview_1''\<rparr> =
     [ConsoleError ''StreamError'',
      ToastError ''Failed to end the meeting. Please try again.'']
   \<and> interview_status (run_endCall end_fails \<lparr>interview_id = ''interview_1''\<rparr> sample_world)
        ''interview_1'' = Some ''scheduled''
   \<and> route (run_endCall end_fails \<lparr>interview_id = ''interview_1''\<rparr> sample_world)
        = ''/meeting/call_1''"
proof -
  have c: "call_endCall end_fails = Some ''StreamError''"
    by (simp add: end_fails_def all_fine_def)
  have w: "interview_status sample_world ''interview_1'' = Some ''scheduled''
           \<and> route sample_world = ''/meeting/call_1''"
    by (simp add: sample_world_def)
  from C10_nothing_after_failed_end
         [OF c, of "\<lparr>interview_id = ''interview_1''\<rparr>" sample_world] w
  show ?thesis by simp
qed

text \<open>
  The mutation appears among the effects only when ending the call has completed, and
  the navigation only when both have.
\<close>

lemma steps_only_after_end:
  "InterviewStatusUpdated i s \<in> set (endCall sv iv) \<Longrightarrow> call_endCall sv = None"
  "RouterPushed r \<in> set (endCall sv iv) \<Longrightarrow>
     call_endCall sv = None \<and> updateInterviewStatus sv (interview_id iv) ''completed'' = None"
  by (auto simp: endCall_cases split: option.splits)

section \<open>Properties of the hydration-safe player\<close>

text \<open>
  Claim C7. While \<open>mounted\<close> is false the player renders the placeholder and not
  the video; once it is true it renders the video. The first render is the same on
  the server and in the browser, and it is the placeholder; the server renders
  nothing else, and the browser renders the video second, after the mount effect.
  The hook \<open>useIsClient\<close> has the same two phases.
\<close>

theorem C7_placeholder_until_mounted:
  "(\<not> mounted \<longrightarrow> is_placeholder (VideoPlayer props mounted)
                   \<and> \<not> is_video (VideoPlayer props mounted))
   \<and> (mounted \<longrightarrow> VideoPlayer props mounted
                   = VideoElement (src props) (className props) (ariaLabel props))
   \<and> hd (VideoPlayer_renders Server props) = hd (VideoPlayer_renders Browser props)
   \<and> is_placeholder (hd (VideoPlayer_renders env props))
   \<and> VideoPlayer_renders Server props = [VideoPlayer props False]
   \<and> VideoPlayer_renders Browser props
       = [VideoPlayer props False,
          VideoElement (src props) (className props) (ariaLabel props)]
   \<and> hd (useIsClient Server) = hd (useIsClient Browser)
   \<and> useIsClient Server = [False] \<and> useIsClient Browser = [False, True]"
  by (cases env)
     (simp_all add: VideoPlayer_def VideoPlayer_renders_def state_history_def useIsClient_def)

theorem C7_placeholder_until_mounted_witness:
  "is_placeholder (VideoPlayer \<lparr>src = ''/demo.mp4'', className = None, ariaLabel = None\<rparr> False)
   \<and> VideoPlayer \<lparr>src = ''/demo.mp4'', className = None, ariaLabel = None\<rparr> True
       = VideoElement ''/demo.mp4'' None None"
  using C7_placeholder_until_mounted
          [of False "\<lparr>src = ''/demo.mp4'', className = None, ariaLabel = None\<rparr>"]
        C7_placeholder_until_mounted
          [of True "\<lparr>src = ''/demo.mp4'', className = None, ariaLabel = None\<rparr>"]
  by simp

end
